theory Spec2Isabelle
  imports Complex_Main
begin

section \<open>Python and NumPy operations used by the notebooks\<close>

text \<open>
  The notebooks compute with Python floats and NumPy arrays. Numbers are modelled as
  reals (exact arithmetic), arrays as lists. The exceptions that the modelled cells can
  raise are values of \<open>py_error\<close>; a cell that can raise returns \<open>py_error + 'a\<close>.
  \<open>ClassiqError\<close> stands for an exception raised by a call into the SDK.
\<close>

datatype py_error =
  IndexError | KeyError | ZeroDivisionError | ValueError | AssertionError | ClassiqError

text \<open>Python's built-in \<open>sum\<close>: starts from 0 and adds the items from left to right.\<close>

definition py_sum :: "real list \<Rightarrow> real" where
  "py_sum xs = foldl (+) 0 xs"

text \<open>
  \<open>np.linspace(start, stop, num)\<close> with the default \<open>endpoint=True\<close>: the step is
  \<open>(stop - start) / (num - 1)\<close>, entry \<open>i\<close> is \<open>i * step + start\<close>, and the last
  entry is set to \<open>stop\<close> when \<open>num > 1\<close>.
\<close>

definition linspace :: "real \<Rightarrow> real \<Rightarrow> nat \<Rightarrow> real list" where
  "linspace start stop num =
     (if num \<le> 1 then replicate num start
      else map (\<lambda>i. real i * ((stop - start) / real (num - 1)) + start) [0..<num - 1] @ [stop])"

text \<open>
  Running one statement after another: the first exception ends the run.
\<close>

definition py_then :: "py_error + 'a \<Rightarrow> ('a \<Rightarrow> py_error + 'b) \<Rightarrow> py_error + 'b" where
  "py_then r f = (case r of Inl e \<Rightarrow> Inl e | Inr x \<Rightarrow> f x)"

section \<open>The QMCI notebook: module-level variables\<close>

text \<open>
  The module-level names that the notebook assigns and that later code reads:
  \<open>sp_num_qubits\<close>, \<open>probabilities\<close>, \<open>slope\<close>, \<open>offset\<close> (second code cell) and
  \<open>n_qpe\<close> (eighth code cell).
\<close>

record qmci_globals =
  sp_num_qubits :: nat
  probabilities :: "real list"
  slope :: real
  offset :: real
  n_qpe :: nat

text \<open>
  \<open>probabilities = np.linspace(0, 1, 2**sp_num_qubits) / sum(np.linspace(0, 1, 2**sp_num_qubits))\<close>
\<close>

definition linspace_probabilities :: "nat \<Rightarrow> real list" where
  "linspace_probabilities n =
     map (\<lambda>x. x / py_sum (linspace 0 1 (2 ^ n))) (linspace 0 1 (2 ^ n))"

definition notebook_globals :: qmci_globals where
  "notebook_globals =
     \<lparr> sp_num_qubits = 3,
       probabilities = linspace_probabilities 3,
       slope = 0.5,
       offset = 0.4,
       n_qpe = 3 \<rparr>"

text \<open>
  The last code cell prints, as the exact amplitude,
  \<open>sum(np.sin(0.5 * n / 2 + 0.4 / 2) ** 2 * probabilities[n] for n in range(2**3))\<close>.
  The expression reads the module-level array \<open>probabilities\<close> at the indices 0 to 7;
  an index beyond the end of a NumPy array raises IndexError.
\<close>

definition exact_amplitude :: "qmci_globals \<Rightarrow> py_error + real" where
  "exact_amplitude g =
     (if length (probabilities g) < 2 ^ 3 then Inl IndexError
      else Inr (py_sum (map (\<lambda>n. (sin (0.5 * real n / 2 + 0.4 / 2)) ^ 2 * probabilities g ! n)
                          [0..<2 ^ 3])))"

text \<open>
  The target of the tutorial as its introduction states it: the expectation value of
  \<open>f(x) = sin^2(0.25 x + 0.2)\<close> under \<open>p_i = i / 28\<close>, that is
  \<open>(1 / 28) * sum_k sin^2(0.25 k + 0.2) * k\<close> for \<open>k\<close> from 0 to 7.
\<close>

definition target_expectation :: real where
  "target_expectation = 1 / 28 * (\<Sum>k<8. (sin (0.25 * real k + 0.2)) ^ 2 * real k)"

text \<open>The Taylor polynomial of the sine of degree 11, used to bound the printed value.\<close>

definition sin_taylor :: "real \<Rightarrow> real" where
  "sin_taylor x = x - x^3/6 + x^5/120 - x^7/5040 + x^9/362880 - x^11/39916800"

section \<open>The QMCI notebook: quantum functions\<close>

text \<open>
  A function decorated with \<open>@qfunc\<close> is run by the Python interpreter to build the body
  of a quantum function: each declaration of a quantum variable and each call of an SDK
  function inside it adds one statement. A quantum function is therefore modelled by the
  list of statements that it builds. A quantum operand is a variable, given by its name,
  or one item of an array variable.
\<close>

datatype qarg = Q string | QItem string nat

datatype pauli = PauliI | PauliX | PauliY | PauliZ

datatype qexpr =
    EVar qarg
  | ENum int
  | EPow qexpr nat
  | EEq qexpr qexpr

datatype qcall =
    DeclareQArray string "int option"
  | DeclareQBit string
  | Allocate int qarg
  | AllocateNum int bool int qarg
  | InplacePrepareState "real list" real qarg
  | InplacePrepareInt int qarg
  | LinearPauliRotations "pauli list" "real list" "real list" qarg qarg
  | PrepareAmplitudes "real list option" real qarg
  | SwapTest qarg qarg qarg
  | HadamardTransform qarg
  | GateX qarg
  | GateH qarg
  | GateZ qarg
  | GateU real real real real qarg
  | GateCRZ real qarg qarg
  | Bind "qarg list" "qarg list"
  | WithinApply "qcall list" "qcall list"
  | Invert "qcall list"
  | ControlEq qarg int "qcall list"
  | Control qarg "qcall list"
  | XorAssign qarg qexpr
  | MulAssign qarg qexpr
  | SuzukiTrotter "(pauli list \<times> real) list" real int int qarg
  | Qpe "qcall list" qarg
  | QpeFlexible "int \<Rightarrow> qcall list" qarg

text \<open>
  \<open>load_probabilities\<close> reads the module-level \<open>probabilities\<close>;
  \<open>amplitude_loading\<close> reads the module-level \<open>slope\<close> and \<open>offset\<close>.
\<close>

definition load_probabilities :: "qmci_globals \<Rightarrow> qarg \<Rightarrow> qcall list" where
  "load_probabilities g state = [InplacePrepareState (probabilities g) 0 state]"

definition amplitude_loading :: "qmci_globals \<Rightarrow> qarg \<Rightarrow> qarg \<Rightarrow> qcall list" where
  "amplitude_loading g io ind = [LinearPauliRotations [PauliY] [slope g] [offset g] io ind]"

definition state_loading :: "qmci_globals \<Rightarrow> qarg \<Rightarrow> qarg \<Rightarrow> qcall list" where
  "state_loading g io ind = load_probabilities g io @ amplitude_loading g io ind"

definition good_state_oracle :: "qarg \<Rightarrow> qcall list" where
  "good_state_oracle ind = [GateZ ind]"

definition prepare_minus :: "qarg \<Rightarrow> qcall list" where
  "prepare_minus q = [GateX q, GateH q]"

definition zero_oracle :: "qarg \<Rightarrow> qarg \<Rightarrow> qcall list" where
  "zero_oracle x ind = [WithinApply (prepare_minus ind) [ControlEq x 0 [GateX ind]]]"

text \<open>
  \<open>my_grover_operator(state)\<close> declares \<open>io\<close> with \<open>length = state.len - 1\<close> and the
  single qubit \<open>ind\<close>, binds \<open>state\<close> to \<open>[ind, io]\<close>, applies the oracle, the diffuser
  and the global phase, and binds \<open>[ind, io]\<close> back to \<open>state\<close>. The second argument
  of the model is \<open>state.len\<close>, a Python integer. The function builds its statements
  whatever this length is; whether the SDK then accepts them is not part of it.
\<close>

definition my_grover_operator :: "qmci_globals \<Rightarrow> qarg \<Rightarrow> int \<Rightarrow> qcall list" where
  "my_grover_operator g state state_len =
     [DeclareQArray ''io'' (Some (state_len - 1)),
      DeclareQBit ''ind'',
      Bind [state] [Q ''ind'', Q ''io'']] @
     good_state_oracle (Q ''ind'') @
     [WithinApply [Invert (state_loading g (Q ''io'') (Q ''ind''))]
                  (zero_oracle (Q ''io'') (Q ''ind'')),
      GateU 0 0 0 pi (Q ''ind''),
      Bind [Q ''ind'', Q ''io''] [state]]"



section \<open>The QMCI notebook: the sampled phases\<close>

text \<open>
  \<open>res.parsed_counts\<close> is a list of sampled states; each has the dictionary \<open>.state\<close>
  from register names to values (here \<open>state_values\<close>, in the order of its items) and
  the number \<open>.shots\<close>.
\<close>

record sampled_state =
  state_values :: "(string \<times> real) list"
  shots :: int

text \<open>
  A Python dictionary as the list of its items in insertion order. Storing under a key
  that is present replaces the value and keeps the position.
\<close>

fun dict_store :: "('k \<times> 'v) list \<Rightarrow> 'k \<Rightarrow> 'v \<Rightarrow> ('k \<times> 'v) list" where
  "dict_store [] k v = [(k, v)]"
| "dict_store ((k', v') # d) k v =
     (if k' = k then (k, v) # d else (k', v') # dict_store d k v)"

text \<open>
  \<open>phases_counts = dict((sampled_state.state["phase"], sampled_state.shots)
                          for sampled_state in res.parsed_counts)\<close>:
  the loop takes the sampled states in order and stores one pair for each; a state
  without the key \<open>"phase"\<close> raises KeyError.
\<close>

fun phases_counts_loop ::
  "sampled_state list \<Rightarrow> (real \<times> int) list \<Rightarrow> py_error + (real \<times> int) list" where
  "phases_counts_loop [] d = Inr d"
| "phases_counts_loop (sampled # rest) d =
     (case map_of (state_values sampled) ''phase'' of
        None \<Rightarrow> Inl KeyError
      | Some phase \<Rightarrow> phases_counts_loop rest (dict_store d phase (shots sampled)))"

definition phases_counts :: "sampled_state list \<Rightarrow> py_error + (real \<times> int) list" where
  "phases_counts parsed_counts = phases_counts_loop parsed_counts []"

text \<open>
  \<open>max(phases_counts, key=phases_counts.get)\<close> goes through the keys of the
  dictionary in order and returns the first key with the largest value; on an empty
  dictionary \<open>max\<close> raises ValueError.
\<close>

fun max_key_from :: "(real \<times> int) \<Rightarrow> (real \<times> int) list \<Rightarrow> real" where
  "max_key_from best [] = fst best"
| "max_key_from best (item # d) = max_key_from (if snd best < snd item then item else best) d"

definition py_max_key :: "(real \<times> int) list \<Rightarrow> py_error + real" where
  "py_max_key d = (case d of [] \<Rightarrow> Inl ValueError | item # rest \<Rightarrow> Inr (max_key_from item rest))"

text \<open>
  The last code cell of the notebook. It first prints the measured amplitude,
  \<open>np.sin(np.pi * max(phases_counts, key=phases_counts.get)) ** 2\<close>, and then the exact
  amplitude. It reads the module-level \<open>phases_counts\<close>, the second argument of the
  model, and \<open>probabilities\<close>. The model gives the two printed numbers when the cell
  completes, and the exception otherwise.
\<close>

definition last_cell :: "qmci_globals \<Rightarrow> (real \<times> int) list \<Rightarrow> py_error + real \<times> real" where
  "last_cell g phases_counts_dict =
     py_then (py_max_key phases_counts_dict) (\<lambda>phase.
     py_then (exact_amplitude g) (\<lambda>exact.
     Inr ((sin (pi * phase)) ^ 2, exact)))"

section \<open>The swap-test notebook\<close>

text \<open>
  A NumPy float that may be \<open>nan\<close> is a \<open>real option\<close> with \<open>None\<close> for \<open>nan\<close>; an
  array whose entries are all \<open>nan\<close> is \<open>None\<close> too.
  \<open>np.random.rand(n)\<close> returns \<open>n\<close> draws from \<open>[0, 1)\<close>; the draws are a parameter
  \<open>u\<close> of the model, draw \<open>i\<close> being \<open>u i\<close>.
\<close>

definition NUM_QUBITS :: nat where
  "NUM_QUBITS = 3"

definition np_random_rand :: "(nat \<Rightarrow> real) \<Rightarrow> nat \<Rightarrow> real list" where
  "np_random_rand u n = map u [0..<n]"

text \<open>\<open>np.linalg.norm\<close> of a vector: the square root of the sum of the squares.\<close>

definition np_linalg_norm :: "real list \<Rightarrow> real" where
  "np_linalg_norm v = sqrt (sum_list (map (\<lambda>x. x ^ 2) v))"

text \<open>\<open>1 - 2 * np.random.rand(2**NUM_QUBITS)\<close>\<close>

definition amps_raw :: "(nat \<Rightarrow> real) \<Rightarrow> real list" where
  "amps_raw u = map (\<lambda>x. 1 - 2 * x) (np_random_rand u (2 ^ NUM_QUBITS))"

text \<open>
  \<open>amps = amps / np.linalg.norm(amps)\<close>: dividing the zero vector by its norm 0 gives
  \<open>nan\<close> in every entry.
\<close>

definition amps :: "(nat \<Rightarrow> real) \<Rightarrow> real list option" where
  "amps u =
     (if np_linalg_norm (amps_raw u) = 0 then None
      else Some (map (\<lambda>x. x / np_linalg_norm (amps_raw u)) (amps_raw u)))"

text \<open>The product \<open>a @ b\<close> of two vectors of the same length.\<close>

definition np_dot :: "real list \<Rightarrow> real list \<Rightarrow> real" where
  "np_dot a b = sum_list (map2 (*) a b)"

text \<open>\<open>exact_overlap = np.abs(amps1 @ amps2)\<close>\<close>

definition exact_overlap :: "(nat \<Rightarrow> real) \<Rightarrow> (nat \<Rightarrow> real) \<Rightarrow> real option" where
  "exact_overlap u1 u2 =
     (case (amps u1, amps u2) of
        (Some amps1, Some amps2) \<Rightarrow> Some \<bar>np_dot amps1 amps2\<bar>
      | _ \<Rightarrow> None)"

text \<open>\<open>np.sqrt\<close> of a negative float is \<open>nan\<close>.\<close>

definition np_sqrt :: "real \<Rightarrow> real option" where
  "np_sqrt x = (if x < 0 then None else Some (sqrt x))"

text \<open>
  \<open>overlap_from_swap_test =
     np.sqrt(2 * res[0].value.counts["0"] / sum(res[0].value.counts.values()) - 1)\<close>.
  \<open>res\<close> is the list of results of the execution; the counts of a result are a
  dictionary from bit strings to integers, here in the order of its items.
\<close>

definition overlap_from_swap_test :: "(string \<times> int) list list \<Rightarrow> py_error + real option" where
  "overlap_from_swap_test res =
     (case res of
        [] \<Rightarrow> Inl IndexError
      | counts # _ \<Rightarrow>
          (case map_of counts ''0'' of
             None \<Rightarrow> Inl KeyError
           | Some c0 \<Rightarrow>
               (if sum_list (map snd counts) = 0 then Inl ZeroDivisionError
                else Inr (np_sqrt (2 * real_of_int c0 / real_of_int (sum_list (map snd counts)) - 1)))))"





section \<open>The quantum entry points of the other notebooks\<close>

















section \<open>The code cells of the notebooks\<close>














text \<open>
  A notebook is run cell by cell, from the first to the last; the first exception ends
  the run. \<open>print\<close> and the plotting calls do not raise; the expressions they print are
  steps of the run.
\<close>








section \<open>The whitebox-fuzzing model (native Qmod)\<close>

text \<open>
  A \<open>.qmod\<close> file is a declarative model. A quantum variable is a name with its number
  of qubits; a function body is a list of statements. Statements are calls of library
  functions, allocations, in-place arithmetic assignments, variable declarations, binds,
  and the block statements \<open>within ... apply\<close>, \<open>invert\<close>, \<open>control\<close> and \<open>power\<close>.
  A function of the file is modelled by the body it stands for, with its operands
  (the \<open>qfunc\<close> parameters in angle brackets) as functions.
\<close>

datatype qvar = QVar string nat

fun qlen :: "qvar \<Rightarrow> nat" where
  "qlen (QVar name n) = n"

datatype expr =
    Var qvar
  | Num int
  | Add expr expr
  | Mul expr expr
  | Mod expr expr
  | Less expr expr
  | Equal expr expr
  | And expr expr

datatype stmt =
    SCall string "qvar list"
  | SAllocate nat qvar
  | SAllocateNum nat bool nat qvar
  | SXorAssign qvar expr
  | SLocal qvar
  | SBind "qvar list" "qvar list"
  | SWithin "stmt list" "stmt list"
  | SInvert "stmt list"
  | SControl expr "stmt list"
  | SPower nat "stmt list"

definition my_sp :: "qvar \<Rightarrow> qvar \<Rightarrow> stmt list" where
  "my_sp x y = [SCall ''hadamard_transform'' [x], SCall ''hadamard_transform'' [y]]"

definition my_predicate :: "qvar \<Rightarrow> qvar \<Rightarrow> qvar \<Rightarrow> stmt list" where
  "my_predicate x y res =
     [SXorAssign res
        (And (Less (Add (Var x) (Var y)) (Num 9))
             (Equal (Mod (Mul (Var x) (Var y)) (Num 4)) (Num 1)))]"

definition prep_minus :: "qvar \<Rightarrow> stmt list" where
  "prep_minus out = [SAllocate 1 out, SCall ''X'' [out], SCall ''H'' [out]]"

definition my_oracle :: "(qvar \<Rightarrow> stmt list) \<Rightarrow> stmt list" where
  "my_oracle predicate =
     (let aux = QVar ''aux'' 1
      in [SLocal aux, SWithin (prep_minus aux) (predicate aux)])"

definition zero_predicate :: "qvar \<Rightarrow> qvar \<Rightarrow> qvar \<Rightarrow> stmt list" where
  "zero_predicate x y res =
     (let joined = QVar ''joined'' (qlen x + qlen y)
      in [SLocal joined,
          SBind [x, y] [joined],
          SControl (Equal (Var joined) (Num 0)) [SCall ''X'' [res]],
          SBind [joined] [x, y]])"

definition my_diffuser :: "(qvar \<Rightarrow> qvar \<Rightarrow> stmt list) \<Rightarrow> qvar \<Rightarrow> qvar \<Rightarrow> stmt list" where
  "my_diffuser sp_operand x y =
     [SWithin [SInvert (sp_operand x y)]
              (my_oracle (\<lambda>arg0. zero_predicate x y arg0))]"

definition my_grover_operator_qmod :: "stmt list \<Rightarrow> stmt list \<Rightarrow> stmt list" where
  "my_grover_operator_qmod oracle_operand diffuser_operand = oracle_operand @ diffuser_operand"

definition main_qmod :: "stmt list" where
  "main_qmod =
     (let x = QVar ''x'' 6; y = QVar ''y'' 6
      in [SAllocateNum 6 False 0 x, SAllocateNum 6 False 0 y] @
         my_sp x y @
         [SPower 4
            (my_grover_operator_qmod
               (my_oracle (\<lambda>arg0. my_predicate x y arg0))
               (my_diffuser (\<lambda>arg0 arg1. my_sp arg0 arg1) x y))])"

section \<open>The probability distribution of the QMCI notebook\<close>

lemma upt_8: "[0..<8] = [0, 1, 2, 3, 4, 5, 6, 7]"
  by (simp add: upt_rec)

lemma upt_7: "[0..<7] = [0, 1, 2, 3, 4, 5, 6]"
  by (simp add: upt_rec)

lemma linspace_0_1_8:
  "linspace 0 1 8 = [0, 1 / 7, 2 / 7, 3 / 7, 4 / 7, 5 / 7, 6 / 7, 1]"
  by (simp add: linspace_def upt_7)

lemma py_sum_linspace_0_1_8: "py_sum (linspace 0 1 8) = 4"
  by (simp add: linspace_0_1_8 py_sum_def)

lemma probabilities_list:
  "probabilities notebook_globals =
     [0, 1 / 28, 2 / 28, 3 / 28, 4 / 28, 5 / 28, 6 / 28, 7 / 28]"
proof -
  have "probabilities notebook_globals = map (\<lambda>x. x / 4) (linspace 0 1 8)"
    by (simp add: notebook_globals_def linspace_probabilities_def py_sum_linspace_0_1_8)
  then show ?thesis
    by (simp add: linspace_0_1_8)
qed

text \<open>
  Claim C8. In the QMCI notebook the module-level array \<open>probabilities\<close> is a
  probability distribution: it has exactly 8 entries, entry \<open>i\<close> is \<open>i / 28\<close> in
  exact arithmetic, every entry is nonnegative, and the entries sum to exactly 1.
\<close>

theorem probabilities_is_distribution:
  "length (probabilities notebook_globals) = 8 \<and>
   (\<forall>i < 8. probabilities notebook_globals ! i = real i / 28) \<and>
   (\<forall>p \<in> set (probabilities notebook_globals). 0 \<le> p) \<and>
   py_sum (probabilities notebook_globals) = 1"
proof -
  have entries: "\<forall>i < 8. probabilities notebook_globals ! i = real i / 28"
  proof (intro allI impI)
    fix i :: nat
    assume "i < 8"
    then have "i \<in> {0, 1, 2, 3, 4, 5, 6, 7}"
      by auto
    then show "probabilities notebook_globals ! i = real i / 28"
      by (auto simp: probabilities_list)
  qed
  have total: "py_sum (probabilities notebook_globals) = 1"
    by (simp add: probabilities_list py_sum_def)
  show ?thesis
    using entries total by (simp add: probabilities_list)
qed

theorem probabilities_is_distribution_witness:
  "probabilities notebook_globals ! 3 = 3 / 28 \<and> 0 \<le> probabilities notebook_globals ! 3"
proof -
  have "probabilities notebook_globals ! 3 = real 3 / 28"
    using probabilities_is_distribution by simp
  then show ?thesis
    by simp
qed

section \<open>The exact amplitude of the QMCI notebook\<close>

lemma sin_taylor_eq: "(\<Sum>m<13. sin_coeff m * x ^ m) = sin_taylor x"
  by (simp add: sin_taylor_def sin_coeff_def lessThan_nat_numeral lessThan_Suc fact_numeral)

lemma fact_13: "fact 13 = (6227020800 :: real)"
  by (simp add: fact_numeral)

lemma sin_taylor_abs: "\<bar>sin x - sin_taylor x\<bar> \<le> \<bar>x\<bar> ^ 13 / 6227020800"
proof -
  have "\<bar>sin x - (\<Sum>m<13. sin_coeff m * x ^ m)\<bar> \<le> inverse (fact 13) * \<bar>x\<bar> ^ 13"
    by (rule Maclaurin_sin_bound)
  then have "\<bar>sin x - sin_taylor x\<bar> \<le> inverse (fact 13) * \<bar>x\<bar> ^ 13"
    by (simp only: sin_taylor_eq)
  then have "\<bar>sin x - sin_taylor x\<bar> \<le> inverse 6227020800 * \<bar>x\<bar> ^ 13"
    by (simp only: fact_13)
  then show ?thesis
    by (simp only: divide_inverse mult.commute)
qed

lemma sin_between:
  assumes "0 \<le> x"
    and "l \<le> sin_taylor x - x ^ 13 / 6227020800"
    and "sin_taylor x + x ^ 13 / 6227020800 \<le> u"
  shows "l \<le> sin x \<and> sin x \<le> u"
proof -
  have "\<bar>sin x - sin_taylor x\<bar> \<le> x ^ 13 / 6227020800"
    using sin_taylor_abs [of x] assms(1) by simp
  then show ?thesis
    using assms(2,3) by linarith
qed

lemma sin_at_1: "43496 / 100000 \<le> sin (9 / 20 :: real) \<and> sin (9 / 20 :: real) \<le> 43497 / 100000"
  by (rule sin_between) (simp_all add: sin_taylor_def power_divide)

lemma sin_at_2: "64421 / 100000 \<le> sin (7 / 10 :: real) \<and> sin (7 / 10 :: real) \<le> 64422 / 100000"
  by (rule sin_between) (simp_all add: sin_taylor_def power_divide)

lemma sin_at_3: "81341 / 100000 \<le> sin (19 / 20 :: real) \<and> sin (19 / 20 :: real) \<le> 81342 / 100000"
  by (rule sin_between) (simp_all add: sin_taylor_def power_divide)

lemma sin_at_4: "93203 / 100000 \<le> sin (6 / 5 :: real) \<and> sin (6 / 5 :: real) \<le> 93204 / 100000"
  by (rule sin_between) (simp_all add: sin_taylor_def power_divide)

lemma sin_at_5: "99271 / 100000 \<le> sin (29 / 20 :: real) \<and> sin (29 / 20 :: real) \<le> 99272 / 100000"
  by (rule sin_between) (simp_all add: sin_taylor_def power_divide)

lemma sin_at_6: "99166 / 100000 \<le> sin (17 / 10 :: real) \<and> sin (17 / 10 :: real) \<le> 99167 / 100000"
  by (rule sin_between) (simp_all add: sin_taylor_def power_divide)

lemma sin_at_7: "92895 / 100000 \<le> sin (39 / 20 :: real) \<and> sin (39 / 20 :: real) \<le> 92896 / 100000"
  by (rule sin_between) (simp_all add: sin_taylor_def power_divide)

lemma square_between:
  fixes s :: real
  assumes "l \<le> s \<and> s \<le> u" and "0 \<le> l"
  shows "l ^ 2 \<le> s ^ 2 \<and> s ^ 2 \<le> u ^ 2"
  using assms by (simp add: power_mono)

lemma weighted_squares_value:
  "83382 / 100000 < 1 / 28 * (1 * (sin (9 / 20 :: real)) ^ 2 + 2 * (sin (7 / 10 :: real)) ^ 2
       + 3 * (sin (19 / 20 :: real)) ^ 2 + 4 * (sin (6 / 5 :: real)) ^ 2 + 5 * (sin (29 / 20 :: real)) ^ 2
       + 6 * (sin (17 / 10 :: real)) ^ 2 + 7 * (sin (39 / 20 :: real)) ^ 2)"
  "1 / 28 * (1 * (sin (9 / 20 :: real)) ^ 2 + 2 * (sin (7 / 10 :: real)) ^ 2
       + 3 * (sin (19 / 20 :: real)) ^ 2 + 4 * (sin (6 / 5 :: real)) ^ 2 + 5 * (sin (29 / 20 :: real)) ^ 2
       + 6 * (sin (17 / 10 :: real)) ^ 2 + 7 * (sin (39 / 20 :: real)) ^ 2) < 83385 / 100000"
proof -
  have c1: "(43496 / 100000) ^ 2 \<le> (sin (9 / 20 :: real)) ^ 2 \<and> (sin (9 / 20 :: real)) ^ 2 \<le> (43497 / 100000) ^ 2"
    by (rule square_between [OF sin_at_1]) simp
  have c2: "(64421 / 100000) ^ 2 \<le> (sin (7 / 10 :: real)) ^ 2 \<and> (sin (7 / 10 :: real)) ^ 2 \<le> (64422 / 100000) ^ 2"
    by (rule square_between [OF sin_at_2]) simp
  have c3: "(81341 / 100000) ^ 2 \<le> (sin (19 / 20 :: real)) ^ 2 \<and> (sin (19 / 20 :: real)) ^ 2 \<le> (81342 / 100000) ^ 2"
    by (rule square_between [OF sin_at_3]) simp
  have c4: "(93203 / 100000) ^ 2 \<le> (sin (6 / 5 :: real)) ^ 2 \<and> (sin (6 / 5 :: real)) ^ 2 \<le> (93204 / 100000) ^ 2"
    by (rule square_between [OF sin_at_4]) simp
  have c5: "(99271 / 100000) ^ 2 \<le> (sin (29 / 20 :: real)) ^ 2 \<and> (sin (29 / 20 :: real)) ^ 2 \<le> (99272 / 100000) ^ 2"
    by (rule square_between [OF sin_at_5]) simp
  have c6: "(99166 / 100000) ^ 2 \<le> (sin (17 / 10 :: real)) ^ 2 \<and> (sin (17 / 10 :: real)) ^ 2 \<le> (99167 / 100000) ^ 2"
    by (rule square_between [OF sin_at_6]) simp
  have c7: "(92895 / 100000) ^ 2 \<le> (sin (39 / 20 :: real)) ^ 2 \<and> (sin (39 / 20 :: real)) ^ 2 \<le> (92896 / 100000) ^ 2"
    by (rule square_between [OF sin_at_7]) simp
  show "83382 / 100000 < 1 / 28 * (1 * (sin (9 / 20 :: real)) ^ 2 + 2 * (sin (7 / 10 :: real)) ^ 2
       + 3 * (sin (19 / 20 :: real)) ^ 2 + 4 * (sin (6 / 5 :: real)) ^ 2 + 5 * (sin (29 / 20 :: real)) ^ 2
       + 6 * (sin (17 / 10 :: real)) ^ 2 + 7 * (sin (39 / 20 :: real)) ^ 2)"
    using c1 c2 c3 c4 c5 c6 c7 by (simp add: power_divide)
  show "1 / 28 * (1 * (sin (9 / 20 :: real)) ^ 2 + 2 * (sin (7 / 10 :: real)) ^ 2
       + 3 * (sin (19 / 20 :: real)) ^ 2 + 4 * (sin (6 / 5 :: real)) ^ 2 + 5 * (sin (29 / 20 :: real)) ^ 2
       + 6 * (sin (17 / 10 :: real)) ^ 2 + 7 * (sin (39 / 20 :: real)) ^ 2) < 83385 / 100000"
    using c1 c2 c3 c4 c5 c6 c7 by (simp add: power_divide)
qed

lemma target_expectation_expand:
  "target_expectation = 1 / 28 * (1 * (sin (9 / 20 :: real)) ^ 2 + 2 * (sin (7 / 10 :: real)) ^ 2
       + 3 * (sin (19 / 20 :: real)) ^ 2 + 4 * (sin (6 / 5 :: real)) ^ 2 + 5 * (sin (29 / 20 :: real)) ^ 2
       + 6 * (sin (17 / 10 :: real)) ^ 2 + 7 * (sin (39 / 20 :: real)) ^ 2)"
  by (simp add: target_expectation_def lessThan_nat_numeral lessThan_Suc)

lemma exact_amplitude_expand:
  "exact_amplitude notebook_globals = Inr (1 / 28 * (1 * (sin (9 / 20 :: real)) ^ 2 + 2 * (sin (7 / 10 :: real)) ^ 2
       + 3 * (sin (19 / 20 :: real)) ^ 2 + 4 * (sin (6 / 5 :: real)) ^ 2 + 5 * (sin (29 / 20 :: real)) ^ 2
       + 6 * (sin (17 / 10 :: real)) ^ 2 + 7 * (sin (39 / 20 :: real)) ^ 2))"
  by (simp add: exact_amplitude_def probabilities_list upt_8 py_sum_def)

text \<open>
  Claim C9. The reference amplitude that the QMCI notebook computes classically, the sum
  over \<open>n\<close> from 0 to 7 of \<open>sin(0.5 * n / 2 + 0.4 / 2)^2 * probabilities[n]\<close>, equals
  \<open>(1 / 28) * sum_k sin^2(0.25 k + 0.2) * k\<close>, the target expectation value of
  \<open>sin^2(0.25 x + 0.2)\<close> under \<open>p_i = i / 28\<close>; slope 0.5 and offset 0.4 halve to 0.25 and
  0.2; the value is 0.834 to three decimal places.
\<close>

theorem exact_amplitude_is_target:
  "exact_amplitude notebook_globals = Inr target_expectation \<and>
   slope notebook_globals / 2 = 0.25 \<and> offset notebook_globals / 2 = 0.2 \<and>
   \<bar>target_expectation - 0.834\<bar> < 0.0005"
proof -
  have "exact_amplitude notebook_globals = Inr target_expectation"
    by (simp only: exact_amplitude_expand target_expectation_expand)
  moreover have "slope notebook_globals / 2 = 0.25 \<and> offset notebook_globals / 2 = 0.2"
    by (simp add: notebook_globals_def)
  moreover have "\<bar>target_expectation - 0.834\<bar> < 0.0005"
  proof -
    have "83382 / 100000 < target_expectation" and "target_expectation < 83385 / 100000"
      by (simp_all only: target_expectation_expand weighted_squares_value)
    then show ?thesis
      by (simp add: abs_less_iff)
  qed
  ultimately show ?thesis
    by simp
qed

section \<open>Module-level variables are read across cells and by the quantum functions\<close>

lemma max_key_from_is_maximal:
  "\<exists>item \<in> set (best # d). max_key_from best d = fst item \<and> (\<forall>other \<in> set (best # d). snd other \<le> snd item)"
proof (induction d arbitrary: best)
  case Nil
  then show ?case by simp
next
  case (Cons item d)
  let ?next = "if snd best < snd item then item else best"
  from Cons.IH [of ?next] obtain top where
    top: "top \<in> set (?next # d)" "max_key_from ?next d = fst top"
      "\<forall>other \<in> set (?next # d). snd other \<le> snd top"
    by blast
  have "snd best \<le> snd ?next" and "snd item \<le> snd ?next"
    by auto
  with top(3) have "snd best \<le> snd top" and "snd item \<le> snd top"
    by force+
  with top show ?case
    by (auto split: if_splits)
qed

lemma py_max_key_result:
  "py_max_key d = (if d = [] then Inl ValueError
     else Inr (max_key_from (hd d) (tl d)))"
  by (cases d) (simp_all add: py_max_key_def)

lemma last_cell_cases:
  "last_cell g d =
     (if d = [] then Inl ValueError
      else if length (probabilities g) < 8 then Inl IndexError
      else Inr ((sin (pi * max_key_from (hd d) (tl d))) ^ 2,
                py_sum (map (\<lambda>n. (sin (0.5 * real n / 2 + 0.4 / 2)) ^ 2 * probabilities g ! n)
                          [0..<2 ^ 3])))"
  by (simp add: last_cell_def py_max_key_result py_then_def exact_amplitude_def)

text \<open>
  Claim C4, as stated, fails: the last code cell reads \<open>probabilities\<close> and
  \<open>phases_counts\<close>, which earlier cells define. With the same \<open>phases_counts\<close>, an
  empty \<open>probabilities\<close> changes what the cell does; with the same \<open>probabilities\<close>,
  an empty \<open>phases_counts\<close> does.
\<close>

theorem last_cell_reads_earlier_cells:
  "last_cell (notebook_globals\<lparr>probabilities := []\<rparr>) [(5 / 8, 1)] \<noteq>
     last_cell notebook_globals [(5 / 8, 1)] \<and>
   last_cell notebook_globals [] \<noteq> last_cell notebook_globals [(5 / 8, 1)]"
  by (simp add: last_cell_cases probabilities_list)

text \<open>
  Claim C4, amended. The classical variables are module-level names that later cells
  read, and later code requires predicates of them. The last code cell of the QMCI
  notebook reads \<open>phases_counts\<close> and \<open>probabilities\<close>: it raises ValueError exactly when
  \<open>phases_counts\<close> is empty, IndexError exactly when \<open>phases_counts\<close> is not empty and
  \<open>probabilities\<close> has fewer than 8 entries, and completes otherwise; the measured
  amplitude that it then prints is \<open>sin^2(pi * phase)\<close> for a phase of \<open>phases_counts\<close>
  with the largest count, and the exact amplitude is the sum of
  \<open>sin^2(0.5 * n / 2 + 0.4 / 2) * probabilities[n]\<close> over \<open>n\<close> from 0 to 7.
\<close>

theorem last_cell_requirements:
  "(last_cell g d = Inl ValueError \<longleftrightarrow> d = []) \<and>
   (last_cell g d = Inl IndexError \<longleftrightarrow> d \<noteq> [] \<and> length (probabilities g) < 8) \<and>
   ((\<exists>printed. last_cell g d = Inr printed) \<longleftrightarrow> d \<noteq> [] \<and> 8 \<le> length (probabilities g)) \<and>
   (last_cell g d = Inr (measured, exact) \<longrightarrow>
      (\<exists>item \<in> set d. measured = (sin (pi * fst item)) ^ 2 \<and> (\<forall>other \<in> set d. snd other \<le> snd item)) \<and>
      exact = py_sum (map (\<lambda>n. (sin (0.5 * real n / 2 + 0.4 / 2)) ^ 2 * probabilities g ! n) [0..<8]))"
proof (intro conjI impI)
  show "last_cell g d = Inl ValueError \<longleftrightarrow> d = []"
    by (simp add: last_cell_cases)
  show "last_cell g d = Inl IndexError \<longleftrightarrow> d \<noteq> [] \<and> length (probabilities g) < 8"
    by (simp add: last_cell_cases)
  show "(\<exists>printed. last_cell g d = Inr printed) \<longleftrightarrow> d \<noteq> [] \<and> 8 \<le> length (probabilities g)"
    by (auto simp: last_cell_cases)
next
  assume ran: "last_cell g d = Inr (measured, exact)"
  then have some: "d \<noteq> []" and m: "measured = (sin (pi * max_key_from (hd d) (tl d))) ^ 2"
    by (auto simp: last_cell_cases split: if_splits)
  from max_key_from_is_maximal [of "hd d" "tl d"] some
  obtain item where "item \<in> set d" "max_key_from (hd d) (tl d) = fst item"
    "\<forall>other \<in> set d. snd other \<le> snd item"
    by auto
  with m show "\<exists>item \<in> set d. measured = (sin (pi * fst item)) ^ 2 \<and> (\<forall>other \<in> set d. snd other \<le> snd item)"
    by auto
  from ran show "exact = py_sum (map (\<lambda>n. (sin (0.5 * real n / 2 + 0.4 / 2)) ^ 2 * probabilities g ! n) [0..<8])"
    by (auto simp: last_cell_cases split: if_splits)
qed

theorem last_cell_requirements_witness:
  "last_cell notebook_globals [] = Inl ValueError \<and>
   length (probabilities (notebook_globals\<lparr>probabilities := [1 / 2, 1 / 2]\<rparr>)) < 8 \<and>
   last_cell (notebook_globals\<lparr>probabilities := [1 / 2, 1 / 2]\<rparr>) [(3 / 8, 2), (5 / 8, 9)] = Inl IndexError \<and>
   8 \<le> length (probabilities notebook_globals) \<and>
   (\<exists>printed. last_cell notebook_globals [(3 / 8, 2), (5 / 8, 9)] = Inr printed) \<and>
   last_cell notebook_globals [(3 / 8, 2), (5 / 8, 9)] =
     Inr ((sin (pi * (5 / 8))) ^ 2, py_sum (map (\<lambda>n. (sin (0.5 * real n / 2 + 0.4 / 2)) ^ 2 *
            probabilities notebook_globals ! n) [0..<8]))"
proof -
  note empty = last_cell_requirements [of notebook_globals "[]"]
  note short = last_cell_requirements
    [of "notebook_globals\<lparr>probabilities := [1 / 2, 1 / 2]\<rparr>" "[(3 / 8, 2), (5 / 8, 9)]"]
  note full = last_cell_requirements [of notebook_globals "[(3 / 8, 2), (5 / 8, 9)]"]
  have long: "8 \<le> length (probabilities notebook_globals)"
    by (simp add: probabilities_list)
  have few: "length (probabilities (notebook_globals\<lparr>probabilities := [1 / 2, 1 / 2]\<rparr>)) < 8"
    by simp
  have a: "last_cell notebook_globals [] = Inl ValueError"
    using empty by blast
  have b: "last_cell (notebook_globals\<lparr>probabilities := [1 / 2, 1 / 2]\<rparr>) [(3 / 8, 2), (5 / 8, 9)]
      = Inl IndexError"
    using short few by blast
  have c: "\<exists>printed. last_cell notebook_globals [(3 / 8, 2), (5 / 8, 9)] = Inr printed"
    using full long by blast
  have d: "last_cell notebook_globals [(3 / 8, 2), (5 / 8, 9)] =
     Inr ((sin (pi * (5 / 8))) ^ 2, py_sum (map (\<lambda>n. (sin (0.5 * real n / 2 + 0.4 / 2)) ^ 2 *
            probabilities notebook_globals ! n) [0..<8]))"
    using long by (simp add: last_cell_cases)
  show ?thesis
    using a b c d long few by blast
qed

text \<open>
  Claim C5, as stated, fails: \<open>load_probabilities\<close> reads the module-level
  \<open>probabilities\<close>, so two runs on the same register under two values of that variable
  build different statements.
\<close>

theorem load_probabilities_reads_global:
  "load_probabilities notebook_globals (Q ''res'') \<noteq>
   load_probabilities (notebook_globals\<lparr>probabilities := [1]\<rparr>) (Q ''res'')"
  by (simp add: load_probabilities_def probabilities_list)

text \<open>
  Claim C5, amended. \<open>load_probabilities\<close>, \<open>amplitude_loading\<close>, \<open>state_loading\<close> and
  \<open>my_grover_operator\<close> depend on the module-level variables \<open>probabilities\<close>,
  \<open>slope\<close> and \<open>offset\<close> and on no other: two runs with equal explicit arguments give
  equal results whenever these three variables have equal values.
\<close>

theorem qfuncs_depend_on_three_globals:
  assumes "probabilities g = probabilities g'"
    and "slope g = slope g'"
    and "offset g = offset g'"
  shows "load_probabilities g state = load_probabilities g' state \<and>
         amplitude_loading g io ind = amplitude_loading g' io ind \<and>
         state_loading g io ind = state_loading g' io ind \<and>
         my_grover_operator g state state_len = my_grover_operator g' state state_len"
proof -
  have lp: "load_probabilities g = load_probabilities g'"
    using assms(1) by (simp add: fun_eq_iff load_probabilities_def)
  have al: "amplitude_loading g = amplitude_loading g'"
    using assms(2,3) by (simp add: fun_eq_iff amplitude_loading_def)
  have sl: "state_loading g = state_loading g'"
    by (simp add: fun_eq_iff state_loading_def lp al)
  show ?thesis
    by (simp add: lp al sl my_grover_operator_def)
qed

theorem qfuncs_depend_on_three_globals_witness:
  "probabilities notebook_globals = probabilities (notebook_globals\<lparr>n_qpe := 5, sp_num_qubits := 2\<rparr>) \<and>
   slope notebook_globals = slope (notebook_globals\<lparr>n_qpe := 5, sp_num_qubits := 2\<rparr>) \<and>
   offset notebook_globals = offset (notebook_globals\<lparr>n_qpe := 5, sp_num_qubits := 2\<rparr>) \<and>
   load_probabilities notebook_globals (Q ''res'') =
     load_probabilities (notebook_globals\<lparr>n_qpe := 5, sp_num_qubits := 2\<rparr>) (Q ''res'') \<and>
   state_loading notebook_globals (Q ''res'') (Q ''ind'') =
     state_loading (notebook_globals\<lparr>n_qpe := 5, sp_num_qubits := 2\<rparr>) (Q ''res'') (Q ''ind'') \<and>
   my_grover_operator notebook_globals (Q ''state'') 4 =
     my_grover_operator (notebook_globals\<lparr>n_qpe := 5, sp_num_qubits := 2\<rparr>) (Q ''state'') 4"
  using qfuncs_depend_on_three_globals
    [of notebook_globals "notebook_globals\<lparr>n_qpe := 5, sp_num_qubits := 2\<rparr>"
        "Q ''res''" "Q ''res''" "Q ''ind''" 4]
    qfuncs_depend_on_three_globals
    [of notebook_globals "notebook_globals\<lparr>n_qpe := 5, sp_num_qubits := 2\<rparr>"
        "Q ''state''" "Q ''res''" "Q ''ind''" 4]
  by simp

section \<open>The two binds of the Grover operator of the QMCI notebook\<close>






section \<open>Loops and blocks in the repository's programs\<close>

lemmas qmod_defs = main_qmod_def my_grover_operator_qmod_def my_diffuser_def my_oracle_def
  zero_predicate_def prep_minus_def my_predicate_def my_sp_def

lemma keys_dict_store: "fst ` set (dict_store d k v) = insert k (fst ` set d)"
  by (induction d k v rule: dict_store.induct) auto

lemma length_dict_store: "length (dict_store d k v) \<le> Suc (length d)"
  by (induction d k v rule: dict_store.induct) auto

lemma distinct_dict_store: "distinct (map fst d) \<Longrightarrow> distinct (map fst (dict_store d k v))"
proof (induction d k v rule: dict_store.induct)
  case (1 k v)
  then show ?case by simp
next
  case (2 k' v' d k v)
  then show ?case
    using keys_dict_store [of d k v] by (auto simp: image_iff)
qed

lemma dict_store_new_key: "k \<notin> fst ` set d \<Longrightarrow> dict_store d k v = d @ [(k, v)]"
  by (induction d k v rule: dict_store.induct) auto

lemma phases_counts_loop_result:
  "phases_counts_loop ps d = Inr d' \<Longrightarrow>
     (\<forall>s \<in> set ps. \<exists>phase. map_of (state_values s) ''phase'' = Some phase \<and> phase \<in> fst ` set d') \<and>
     fst ` set d \<subseteq> fst ` set d' \<and>
     (distinct (map fst d) \<longrightarrow> distinct (map fst d')) \<and>
     length d' \<le> length d + length ps"
proof (induction ps arbitrary: d)
  case Nil
  then show ?case by simp
next
  case (Cons s ps)
  from Cons.prems obtain phase where
    ph: "map_of (state_values s) ''phase'' = Some phase"
    and rest: "phases_counts_loop ps (dict_store d phase (shots s)) = Inr d'"
    by (auto split: option.splits)
  note ih = Cons.IH [OF rest]
  have k: "fst ` set (dict_store d phase (shots s)) = insert phase (fst ` set d)"
    by (rule keys_dict_store)
  show ?case
    using ih k ph length_dict_store [of d phase "shots s"]
      distinct_dict_store [of d phase "shots s"] by auto
qed

lemma phases_counts_loop_returns:
  "(\<exists>d'. phases_counts_loop ps d = Inr d') \<longleftrightarrow>
     (\<forall>s \<in> set ps. map_of (state_values s) ''phase'' \<noteq> None)"
  by (induction ps arbitrary: d) (auto split: option.splits)

lemma phases_counts_loop_KeyError:
  "phases_counts_loop ps d = Inl e \<Longrightarrow> e = KeyError"
  by (induction ps arbitrary: d) (auto split: option.splits)

lemma phases_counts_loop_distinct:
  assumes "\<forall>s \<in> set ps. map_of (state_values s) ''phase'' \<noteq> None"
    and "distinct (map (\<lambda>s. map_of (state_values s) ''phase'') ps)"
    and "\<forall>s \<in> set ps. the (map_of (state_values s) ''phase'') \<notin> fst ` set d"
  shows "phases_counts_loop ps d =
     Inr (d @ map (\<lambda>s. (the (map_of (state_values s) ''phase''), shots s)) ps)"
  using assms
proof (induction ps arbitrary: d)
  case Nil
  then show ?case by simp
next
  case (Cons s ps)
  from Cons.prems(1) obtain phase where ph: "map_of (state_values s) ''phase'' = Some phase"
    by auto
  from Cons.prems(3) ph have new: "phase \<notin> fst ` set d"
    by simp
  have store: "dict_store d phase (shots s) = d @ [(phase, shots s)]"
    by (rule dict_store_new_key [OF new])
  have later: "\<forall>t \<in> set ps. the (map_of (state_values t) ''phase'') \<notin> fst ` set (d @ [(phase, shots s)])"
  proof
    fix t
    assume t: "t \<in> set ps"
    with Cons.prems(1) obtain q where q: "map_of (state_values t) ''phase'' = Some q"
      by auto
    from Cons.prems(2) t ph q have "q \<noteq> phase"
      by (auto simp: image_iff)
    moreover from Cons.prems(3) t q have "q \<notin> fst ` set d"
      by force
    ultimately show "the (map_of (state_values t) ''phase'') \<notin> fst ` set (d @ [(phase, shots s)])"
      using q by auto
  qed
  have "phases_counts_loop ps (d @ [(phase, shots s)]) =
      Inr ((d @ [(phase, shots s)]) @ map (\<lambda>s. (the (map_of (state_values s) ''phase''), shots s)) ps)"
    using Cons.prems(1,2) later by (intro Cons.IH) auto
  then show ?case
    using ph store by simp
qed

text \<open>
  Claim C6, as stated, fails. In the QMCI notebook the cell that builds
  \<open>phases_counts\<close> is a loop over \<open>res.parsed_counts\<close>: on no, one, two and three
  sampled states it stores no, one, two and three items, and it stops with KeyError at a
  sampled state that has no \<open>"phase"\<close>. In the whitebox-fuzzing model the last statement
  of \<open>main\<close> is a \<open>power (4)\<close> block.
\<close>

theorem phases_counts_is_a_loop:
  "phases_counts [] = Inr [] \<and>
   phases_counts [\<lparr>state_values = [(''phase'', 1 / 8)], shots = 5\<rparr>] = Inr [(1 / 8, 5)] \<and>
   phases_counts [\<lparr>state_values = [(''phase'', 1 / 8)], shots = 5\<rparr>,
                  \<lparr>state_values = [(''phase'', 3 / 8)], shots = 4\<rparr>] =
     Inr [(1 / 8, 5), (3 / 8, 4)] \<and>
   phases_counts [\<lparr>state_values = [(''phase'', 1 / 8)], shots = 5\<rparr>,
                  \<lparr>state_values = [(''phase'', 3 / 8)], shots = 4\<rparr>,
                  \<lparr>state_values = [(''phase'', 5 / 8)], shots = 7\<rparr>] =
     Inr [(1 / 8, 5), (3 / 8, 4), (5 / 8, 7)] \<and>
   phases_counts [\<lparr>state_values = [(''phase'', 1 / 8)], shots = 5\<rparr>,
                  \<lparr>state_values = [], shots = 4\<rparr>,
                  \<lparr>state_values = [(''phase'', 5 / 8)], shots = 7\<rparr>] = Inl KeyError \<and>
   last main_qmod =
     SPower 4 (my_grover_operator_qmod
                 (my_oracle (\<lambda>arg0. my_predicate (QVar ''x'' 6) (QVar ''y'' 6) arg0))
                 (my_diffuser (\<lambda>arg0 arg1. my_sp arg0 arg1) (QVar ''x'' 6) (QVar ''y'' 6)))"
  by (simp add: phases_counts_def main_qmod_def Let_def)

text \<open>
  Claim C6, amended. The repository's programs are not all straight-line sequences of
  calls. In the QMCI notebook \<open>phases_counts\<close> is built by a loop over all of
  \<open>res.parsed_counts\<close>: it returns exactly when every sampled state has the key
  \<open>"phase"\<close> and raises KeyError otherwise; the dictionary then has the phase of every
  sampled state among its keys, each key once, and when the phases are pairwise
  different it has one item for each sampled state, in their order. The whitebox-fuzzing
  \<open>main\<close> is two allocations, the two Hadamard transforms of \<open>my_sp\<close> and one
  \<open>power (4)\<close> block around \<open>my_grover_operator\<close>; \<open>zero_predicate\<close> applies \<open>X\<close>
  to \<open>res\<close> in a \<open>control (joined == 0)\<close> block.
\<close>

theorem phases_counts_loop_and_qmod_blocks:
  "((\<exists>d. phases_counts ps = Inr d) \<longleftrightarrow>
      (\<forall>s \<in> set ps. map_of (state_values s) ''phase'' \<noteq> None)) \<and>
   (phases_counts ps = Inl e \<longrightarrow> e = KeyError) \<and>
   (phases_counts ps = Inr d \<longrightarrow>
      (\<forall>s \<in> set ps. \<exists>phase. map_of (state_values s) ''phase'' = Some phase \<and> phase \<in> fst ` set d) \<and>
      distinct (map fst d) \<and>
      length d \<le> length ps) \<and>
   ((\<forall>s \<in> set ps. map_of (state_values s) ''phase'' \<noteq> None) \<and>
    distinct (map (\<lambda>s. map_of (state_values s) ''phase'') ps) \<longrightarrow>
      phases_counts ps = Inr (map (\<lambda>s. (the (map_of (state_values s) ''phase''), shots s)) ps)) \<and>
   main_qmod =
     [SAllocateNum 6 False 0 (QVar ''x'' 6), SAllocateNum 6 False 0 (QVar ''y'' 6),
      SCall ''hadamard_transform'' [QVar ''x'' 6], SCall ''hadamard_transform'' [QVar ''y'' 6],
      SPower 4 (my_grover_operator_qmod
                  (my_oracle (\<lambda>arg0. my_predicate (QVar ''x'' 6) (QVar ''y'' 6) arg0))
                  (my_diffuser (\<lambda>arg0 arg1. my_sp arg0 arg1) (QVar ''x'' 6) (QVar ''y'' 6)))] \<and>
   zero_predicate x y res ! 2 =
     SControl (Equal (Var (QVar ''joined'' (qlen x + qlen y))) (Num 0)) [SCall ''X'' [res]]"
proof (intro conjI impI)
  show "(\<exists>d. phases_counts ps = Inr d) \<longleftrightarrow>
      (\<forall>s \<in> set ps. map_of (state_values s) ''phase'' \<noteq> None)"
    unfolding phases_counts_def by (rule phases_counts_loop_returns)
  show "main_qmod =
     [SAllocateNum 6 False 0 (QVar ''x'' 6), SAllocateNum 6 False 0 (QVar ''y'' 6),
      SCall ''hadamard_transform'' [QVar ''x'' 6], SCall ''hadamard_transform'' [QVar ''y'' 6],
      SPower 4 (my_grover_operator_qmod
                  (my_oracle (\<lambda>arg0. my_predicate (QVar ''x'' 6) (QVar ''y'' 6) arg0))
                  (my_diffuser (\<lambda>arg0 arg1. my_sp arg0 arg1) (QVar ''x'' 6) (QVar ''y'' 6)))]"
    by (simp add: main_qmod_def my_sp_def Let_def)
  show "zero_predicate x y res ! 2 =
     SControl (Equal (Var (QVar ''joined'' (qlen x + qlen y))) (Num 0)) [SCall ''X'' [res]]"
    by (simp add: zero_predicate_def Let_def)
next
  assume "phases_counts ps = Inl e"
  then show "e = KeyError"
    unfolding phases_counts_def by (rule phases_counts_loop_KeyError)
next
  assume "phases_counts ps = Inr d"
  then have loop: "phases_counts_loop ps [] = Inr d"
    by (simp add: phases_counts_def)
  note result = phases_counts_loop_result [OF loop]
  show "\<forall>s \<in> set ps. \<exists>phase. map_of (state_values s) ''phase'' = Some phase \<and> phase \<in> fst ` set d"
    using result by blast
  show "distinct (map fst d)"
    using result by simp
  show "length d \<le> length ps"
    using result by simp
next
  assume "(\<forall>s \<in> set ps. map_of (state_values s) ''phase'' \<noteq> None) \<and>
    distinct (map (\<lambda>s. map_of (state_values s) ''phase'') ps)"
  then show "phases_counts ps = Inr (map (\<lambda>s. (the (map_of (state_values s) ''phase''), shots s)) ps)"
    using phases_counts_loop_distinct [of ps "[]"] by (simp add: phases_counts_def)
qed

theorem phases_counts_loop_and_qmod_blocks_witness:
  "phases_counts
     [\<lparr>state_values = [(''phase'', 5 / 8)], shots = 5\<rparr>,
      \<lparr>state_values = [(''phase'', 3 / 8)], shots = 4\<rparr>,
      \<lparr>state_values = [(''phase'', 5 / 8)], shots = 7\<rparr>] = Inr [(5 / 8, 7), (3 / 8, 4)] \<and>
   distinct (map fst [(5 / 8 :: real, 7 :: int), (3 / 8, 4)]) \<and>
   length [(5 / 8 :: real, 7 :: int), (3 / 8, 4)] \<le>
     length [\<lparr>state_values = [(''phase'', 5 / 8)], shots = 5\<rparr>,
             \<lparr>state_values = [(''phase'', 3 / 8)], shots = 4\<rparr>,
             \<lparr>state_values = [(''phase'', 5 / 8)], shots = 7\<rparr>] \<and>
   distinct (map (\<lambda>s. map_of (state_values s) ''phase'')
     [\<lparr>state_values = [(''phase'', 1 / 8)], shots = 5\<rparr>,
      \<lparr>state_values = [(''phase'', 3 / 8)], shots = 4\<rparr>]) \<and>
   phases_counts
     [\<lparr>state_values = [(''phase'', 1 / 8)], shots = 5\<rparr>,
      \<lparr>state_values = [(''phase'', 3 / 8)], shots = 4\<rparr>] = Inr [(1 / 8, 5), (3 / 8, 4)] \<and>
   phases_counts [\<lparr>state_values = [], shots = 4\<rparr>] = Inl KeyError"
proof -
  let ?ps = "[\<lparr>state_values = [(''phase'', 5 / 8)], shots = 5\<rparr>,
      \<lparr>state_values = [(''phase'', 3 / 8)], shots = 4\<rparr>,
      \<lparr>state_values = [(''phase'', 5 / 8)], shots = 7\<rparr>]"
  let ?qs = "[\<lparr>state_values = [(''phase'', 1 / 8)], shots = 5\<rparr>,
      \<lparr>state_values = [(''phase'', 3 / 8)], shots = 4\<rparr>]"
  let ?bad = "[\<lparr>state_values = [], shots = 4 :: int\<rparr>]"
  have run: "phases_counts ?ps = Inr [(5 / 8, 7), (3 / 8, 4)]"
    by (simp add: phases_counts_def)
  note twice = phases_counts_loop_and_qmod_blocks [where ps = ?ps and d = "[(5 / 8, 7), (3 / 8, 4)]"]
  note apart = phases_counts_loop_and_qmod_blocks [where ps = ?qs]
  note missing = phases_counts_loop_and_qmod_blocks [where ps = ?bad]
  have one: "distinct (map fst [(5 / 8 :: real, 7 :: int), (3 / 8, 4)]) \<and>
      length [(5 / 8 :: real, 7 :: int), (3 / 8, 4)] \<le> length ?ps"
    using twice run by blast
  have different: "distinct (map (\<lambda>s. map_of (state_values s) ''phase'') ?qs)"
    by simp
  have present: "\<forall>s \<in> set ?qs. map_of (state_values s) ''phase'' \<noteq> None"
    by (simp del: not_None_eq)
  have two: "phases_counts ?qs = Inr [(1 / 8, 5), (3 / 8, 4)]"
    using apart present different by simp
  have "\<not> (\<forall>s \<in> set ?bad. map_of (state_values s) ''phase'' \<noteq> None)"
    by simp
  with missing have "\<not> (\<exists>d. phases_counts ?bad = Inr d)"
    by blast
  then obtain e where e: "phases_counts ?bad = Inl e"
    by (cases "phases_counts ?bad") auto
  with phases_counts_loop_and_qmod_blocks [where ps = ?bad and e = e] have "e = KeyError"
    by blast
  with e have three: "phases_counts ?bad = Inl KeyError"
    by simp
  show ?thesis
    using run one different two three by blast
qed

section \<open>The overlaps of the swap-test notebook\<close>

lemma sum_squares_scaled:
  fixes n :: real
  shows "sum_list (map (\<lambda>x. x ^ 2) (map (\<lambda>x. x / n) v)) = sum_list (map (\<lambda>x. x ^ 2) v) / n ^ 2"
  by (induction v) (simp_all add: power_divide add_divide_distrib)

lemma sum_squares_nonneg:
  fixes v :: "real list"
  shows "0 \<le> sum_list (map (\<lambda>x. x ^ 2) v)"
  by (induction v) simp_all

lemma norm_of_normalized:
  assumes "np_linalg_norm v \<noteq> 0"
  shows "np_linalg_norm (map (\<lambda>x. x / np_linalg_norm v) v) = 1"
proof -
  let ?s = "sum_list (map (\<lambda>x. x ^ 2) v)"
  have pos: "0 < ?s"
    using assms sum_squares_nonneg [of v] by (simp add: np_linalg_norm_def less_le)
  have sq: "(np_linalg_norm v) ^ 2 = ?s"
    using pos by (simp add: np_linalg_norm_def)
  have "sum_list (map (\<lambda>x. x ^ 2) (map (\<lambda>x. x / np_linalg_norm v) v)) =
      ?s / (np_linalg_norm v) ^ 2"
    by (rule sum_squares_scaled)
  also have "\<dots> = 1"
    using pos by (simp only: sq) simp
  finally show ?thesis
    by (simp only: np_linalg_norm_def [of "map (\<lambda>x. x / np_linalg_norm v) v"] real_sqrt_one)
qed

lemma length_amps_raw: "length (amps_raw u) = 8"
  by (simp add: amps_raw_def np_random_rand_def NUM_QUBITS_def)

lemma amps_defined:
  assumes "np_linalg_norm (amps_raw u) \<noteq> 0"
  shows "\<exists>a. amps u = Some a \<and> length a = 8 \<and> np_linalg_norm a = 1"
  using assms by (simp add: amps_def length_amps_raw norm_of_normalized)

lemma amps_raw_unit: "amps_raw (\<lambda>i. if i = 0 then 0 else 1 / 2) = [1, 0, 0, 0, 0, 0, 0, 0]"
  by (simp add: amps_raw_def np_random_rand_def NUM_QUBITS_def upt_8)

lemma amps_raw_ones: "amps_raw (\<lambda>i. 0) = [1, 1, 1, 1, 1, 1, 1, 1]"
  by (simp add: amps_raw_def np_random_rand_def NUM_QUBITS_def upt_8)

lemma norm_unit: "np_linalg_norm [1, 0, 0, 0, 0, 0, 0, 0] = 1"
  by (simp add: np_linalg_norm_def)



text \<open>
  Claim C3. When neither raw vector is the zero vector, \<open>amps1\<close> and \<open>amps2\<close> are
  8-entry vectors of norm 1 and \<open>exact_overlap\<close> is the absolute value of their dot
  product. When the counts of the first result have the key \<open>"0"\<close> and a nonzero total,
  \<open>overlap_from_swap_test\<close> is \<open>np.sqrt(2 * counts["0"] / total - 1)\<close>, which is the
  square root when its argument is not negative.
\<close>

theorem swap_test_overlap_values:
  assumes "np_linalg_norm (amps_raw u1) \<noteq> 0"
    and "np_linalg_norm (amps_raw u2) \<noteq> 0"
    and "map_of counts ''0'' = Some c0"
    and "sum_list (map snd counts) \<noteq> 0"
  shows "(\<exists>amps1 amps2.
            amps u1 = Some amps1 \<and> amps u2 = Some amps2 \<and>
            length amps1 = 8 \<and> length amps2 = 8 \<and>
            np_linalg_norm amps1 = 1 \<and> np_linalg_norm amps2 = 1 \<and>
            exact_overlap u1 u2 = Some \<bar>np_dot amps1 amps2\<bar>) \<and>
         overlap_from_swap_test (counts # rest) =
           Inr (np_sqrt (2 * real_of_int c0 / real_of_int (sum_list (map snd counts)) - 1)) \<and>
         (0 \<le> 2 * real_of_int c0 / real_of_int (sum_list (map snd counts)) - 1 \<longrightarrow>
          overlap_from_swap_test (counts # rest) =
            Inr (Some (sqrt (2 * real_of_int c0 / real_of_int (sum_list (map snd counts)) - 1))))"
proof -
  obtain a1 where a1: "amps u1 = Some a1" "length a1 = 8" "np_linalg_norm a1 = 1"
    using amps_defined [OF assms(1)] by blast
  obtain a2 where a2: "amps u2 = Some a2" "length a2 = 8" "np_linalg_norm a2 = 1"
    using amps_defined [OF assms(2)] by blast
  have "exact_overlap u1 u2 = Some \<bar>np_dot a1 a2\<bar>"
    by (simp add: exact_overlap_def a1 a2)
  then have first: "\<exists>amps1 amps2.
            amps u1 = Some amps1 \<and> amps u2 = Some amps2 \<and>
            length amps1 = 8 \<and> length amps2 = 8 \<and>
            np_linalg_norm amps1 = 1 \<and> np_linalg_norm amps2 = 1 \<and>
            exact_overlap u1 u2 = Some \<bar>np_dot amps1 amps2\<bar>"
    using a1 a2 by blast
  have second: "overlap_from_swap_test (counts # rest) =
           Inr (np_sqrt (2 * real_of_int c0 / real_of_int (sum_list (map snd counts)) - 1))"
    using assms(3,4) by (simp add: overlap_from_swap_test_def)
  have third: "0 \<le> 2 * real_of_int c0 / real_of_int (sum_list (map snd counts)) - 1 \<longrightarrow>
          overlap_from_swap_test (counts # rest) =
            Inr (Some (sqrt (2 * real_of_int c0 / real_of_int (sum_list (map snd counts)) - 1)))"
    unfolding second by (simp add: np_sqrt_def)
  show ?thesis
    using first second third by blast
qed

theorem swap_test_overlap_values_witness:
  "np_linalg_norm (amps_raw (\<lambda>i. 0)) \<noteq> 0 \<and>
   np_linalg_norm (amps_raw (\<lambda>i. if i = 0 then 0 else 1 / 2)) \<noteq> 0 \<and>
   map_of [(''0'', 3 :: int), (''1'', 1)] ''0'' = Some 3 \<and>
   sum_list (map snd [(''0'', 3 :: int), (''1'', 1)]) \<noteq> 0 \<and>
   overlap_from_swap_test [[(''0'', 3), (''1'', 1)]] = Inr (Some (sqrt (1 / 2))) \<and>
   (\<exists>amps1 amps2.
      amps (\<lambda>i. 0) = Some amps1 \<and> amps (\<lambda>i. if i = 0 then 0 else 1 / 2) = Some amps2 \<and>
      length amps1 = 8 \<and> length amps2 = 8 \<and>
      np_linalg_norm amps1 = 1 \<and> np_linalg_norm amps2 = 1 \<and>
      exact_overlap (\<lambda>i. 0) (\<lambda>i. if i = 0 then 0 else 1 / 2) = Some \<bar>np_dot amps1 amps2\<bar>)"
proof -
  have n1: "np_linalg_norm (amps_raw (\<lambda>i. 0)) \<noteq> 0"
    by (simp add: amps_raw_ones np_linalg_norm_def)
  have n2: "np_linalg_norm (amps_raw (\<lambda>i. if i = 0 then 0 else 1 / 2)) \<noteq> 0"
    by (simp add: amps_raw_unit norm_unit)
  have c0: "map_of [(''0'', 3), (''1'', 1)] ''0'' = Some (3 :: int)"
    by simp
  have total: "sum_list (map snd [(''0'', 3 :: int), (''1'', 1)]) \<noteq> 0"
    by simp
  note overlaps = swap_test_overlap_values [OF n1 n2 c0 total, of "[]"]
  have "overlap_from_swap_test [[(''0'', 3), (''1'', 1)]] = Inr (Some (sqrt (1 / 2)))"
    using overlaps by (simp add: np_sqrt_def)
  then show ?thesis
    using overlaps n1 n2 c0 total by blast
qed

section \<open>Failures of the notebooks\<close>















end
